theory Spec2Isabelle
  imports Main
begin

section \<open>Python values\<close>

text \<open>
  The repository is Python. Its contexts and history entries are typed
  \<^verbatim>\<open>Dict[str, Any]\<close>, so a value is a tree of data: the JSON kinds, a tuple (a data
  frame's \<^verbatim>\<open>shape\<close> is one), or an opaque object (for instance the data frame that
  \<^verbatim>\<open>context.get("data")\<close> is expected to return). An opaque object carries its data
  attributes, so that \<^verbatim>\<open>getattr(data, "shape", None)\<close> can be evaluated; it has no
  methods, is not renderable by the console, and is the one kind of value that
  \<^verbatim>\<open>json.dumps\<close> refuses. A dictionary keeps its keys in insertion order, as
  Python's does. Numbers are integers: no code of the repository computes with a
  number. A text is the list of its UTF-8 bytes.
\<close>

datatype pyval =
    PNone
  | PBool bool
  | PInt int
  | PStr string
  | PList "pyval list"
  | PTuple "pyval list"
  | PDict "(string \<times> pyval) list"
  | PObject "(string \<times> pyval) list"

type_synonym pydict = "(string \<times> pyval) list"

datatype error =
    JSONDecodeError
  | AttributeError
  | TypeError
  | ValueError
  | OSError
  | KeyError
  | IndexError
  | NotRenderableError
  | MarkupError
  | CalledProcessError

text \<open>\<^verbatim>\<open>d[k] = v\<close>: an existing key keeps its position, a new key goes last.\<close>

fun dict_set :: "(string \<times> 'v) list \<Rightarrow> string \<Rightarrow> 'v \<Rightarrow> (string \<times> 'v) list" where
  "dict_set [] k v = [(k, v)]"
| "dict_set ((k', v') # d) k v =
     (if k' = k then (k, v) # d else (k', v') # dict_set d k v)"

text \<open>\<^verbatim>\<open>d.update(other)\<close>: the keys of \<open>other\<close> are stored one after the other.\<close>

fun dict_update :: "(string \<times> 'v) list \<Rightarrow> (string \<times> 'v) list \<Rightarrow> (string \<times> 'v) list" where
  "dict_update d [] = d"
| "dict_update d ((k, v) # other) = dict_update (dict_set d k v) other"

text \<open>\<^verbatim>\<open>d.get(k)\<close>: the value, or \<^verbatim>\<open>None\<close> for a key that is absent.\<close>

definition dict_get :: "pydict \<Rightarrow> string \<Rightarrow> pyval" where
  "dict_get d k = (case map_of d k of None \<Rightarrow> PNone | Some v \<Rightarrow> v)"

text \<open>The keys of a dictionary, in order.\<close>

definition keys :: "(string \<times> 'v) list \<Rightarrow> string list" where
  "keys d = map fst d"

text \<open>\<^verbatim>\<open>str.lower()\<close>. The three commands it is compared with are ASCII, and no
  character outside ASCII lowers to one of their letters, so the ASCII table decides
  every comparison the session makes.\<close>

definition lower_char :: "char \<Rightarrow> char" where
  "lower_char c =
     (case map_of (zip ''ABCDEFGHIJKLMNOPQRSTUVWXYZ'' ''abcdefghijklmnopqrstuvwxyz'') c of
        None \<Rightarrow> c
      | Some l \<Rightarrow> l)"

definition lower :: "string \<Rightarrow> string" where
  "lower s = map lower_char s"

text \<open>
  \<^verbatim>\<open>str.strip()\<close> removes the characters for which \<^verbatim>\<open>str.isspace()\<close> holds from
  both ends. These are the code points 9 to 13, 28 to 32, U+0085, U+00A0, U+1680,
  U+2000 to U+200A, U+2028, U+2029, U+202F, U+205F and U+3000, here in UTF-8.
\<close>

definition whitespace :: "string list" where
  "whitespace =
     [[CHR 0x09], [CHR 0x0A], [CHR 0x0B], [CHR 0x0C], [CHR 0x0D],
      [CHR 0x1C], [CHR 0x1D], [CHR 0x1E], [CHR 0x1F], [CHR 0x20],
      [CHR 0xC2, CHR 0x85], [CHR 0xC2, CHR 0xA0],
      [CHR 0xE1, CHR 0x9A, CHR 0x80],
      [CHR 0xE2, CHR 0x80, CHR 0x80], [CHR 0xE2, CHR 0x80, CHR 0x81],
      [CHR 0xE2, CHR 0x80, CHR 0x82], [CHR 0xE2, CHR 0x80, CHR 0x83],
      [CHR 0xE2, CHR 0x80, CHR 0x84], [CHR 0xE2, CHR 0x80, CHR 0x85],
      [CHR 0xE2, CHR 0x80, CHR 0x86], [CHR 0xE2, CHR 0x80, CHR 0x87],
      [CHR 0xE2, CHR 0x80, CHR 0x88], [CHR 0xE2, CHR 0x80, CHR 0x89],
      [CHR 0xE2, CHR 0x80, CHR 0x8A],
      [CHR 0xE2, CHR 0x80, CHR 0xA8], [CHR 0xE2, CHR 0x80, CHR 0xA9],
      [CHR 0xE2, CHR 0x80, CHR 0xAF],
      [CHR 0xE2, CHR 0x81, CHR 0x9F],
      [CHR 0xE3, CHR 0x80, CHR 0x80]]"

fun starts_with :: "string \<Rightarrow> string \<Rightarrow> bool" where
  "starts_with [] s = True"
| "starts_with (p # ps) [] = False"
| "starts_with (p # ps) (c # cs) = (p = c \<and> starts_with ps cs)"

text \<open>Removing from the front of a text, as long as one is there, any of the given
  byte sequences.\<close>

fun strip_front :: "string list \<Rightarrow> string \<Rightarrow> string" where
  "strip_front seqs [] = []"
| "strip_front seqs (c # cs) =
     (case find (\<lambda>sq. starts_with sq (c # cs)) seqs of
        None \<Rightarrow> c # cs
      | Some sq \<Rightarrow> strip_front seqs (drop (length sq - 1) cs))"

definition py_strip :: "string \<Rightarrow> string" where
  "py_strip s = rev (strip_front (map rev whitespace) (rev (strip_front whitespace s)))"

section \<open>JSON and the history file\<close>

text \<open>
  What a JSON text denotes. \<^verbatim>\<open>json.loads\<close> turns it into lists, dictionaries and
  leaves; \<^verbatim>\<open>json.dumps\<close> writes a tuple as an array and raises \<^verbatim>\<open>TypeError\<close>
  on a value that holds an opaque object anywhere.
\<close>

datatype json =
    JNull
  | JBool bool
  | JInt int
  | JStr string
  | JArr "json list"
  | JObj "(string \<times> json) list"

fun of_json :: "json \<Rightarrow> pyval"
  and of_json_list :: "json list \<Rightarrow> pyval list"
  and of_json_members :: "(string \<times> json) list \<Rightarrow> (string \<times> pyval) list" where
  "of_json JNull = PNone"
| "of_json (JBool b) = PBool b"
| "of_json (JInt i) = PInt i"
| "of_json (JStr s) = PStr s"
| "of_json (JArr xs) = PList (of_json_list xs)"
| "of_json (JObj kvs) = PDict (of_json_members kvs)"
| "of_json_list [] = []"
| "of_json_list (x # xs) = of_json x # of_json_list xs"
| "of_json_members [] = []"
| "of_json_members ((k, v) # kvs) = (k, of_json v) # of_json_members kvs"

fun to_json :: "pyval \<Rightarrow> json option"
  and to_json_list :: "pyval list \<Rightarrow> json list option"
  and to_json_members :: "(string \<times> pyval) list \<Rightarrow> (string \<times> json) list option" where
  "to_json PNone = Some JNull"
| "to_json (PBool b) = Some (JBool b)"
| "to_json (PInt i) = Some (JInt i)"
| "to_json (PStr s) = Some (JStr s)"
| "to_json (PList xs) = map_option JArr (to_json_list xs)"
| "to_json (PTuple xs) = map_option JArr (to_json_list xs)"
| "to_json (PDict kvs) = map_option JObj (to_json_members kvs)"
| "to_json (PObject attrs) = None"
| "to_json_list [] = Some []"
| "to_json_list (x # xs) =
     (case to_json x of
        None \<Rightarrow> None
      | Some j \<Rightarrow> (case to_json_list xs of None \<Rightarrow> None | Some js \<Rightarrow> Some (j # js)))"
| "to_json_members [] = Some []"
| "to_json_members ((k, v) # kvs) =
     (case to_json v of
        None \<Rightarrow> None
      | Some j \<Rightarrow>
          (case to_json_members kvs of None \<Rightarrow> None | Some js \<Rightarrow> Some ((k, j) # js)))"

text \<open>The values that come back from the file as they went in: those built of the
  JSON kinds only.\<close>

fun json_like :: "pyval \<Rightarrow> bool"
  and json_like_list :: "pyval list \<Rightarrow> bool"
  and json_like_members :: "(string \<times> pyval) list \<Rightarrow> bool" where
  "json_like PNone = True"
| "json_like (PBool b) = True"
| "json_like (PInt i) = True"
| "json_like (PStr s) = True"
| "json_like (PList xs) = json_like_list xs"
| "json_like (PTuple xs) = False"
| "json_like (PDict kvs) = json_like_members kvs"
| "json_like (PObject attrs) = False"
| "json_like_list [] = True"
| "json_like_list (x # xs) = (json_like x \<and> json_like_list xs)"
| "json_like_members [] = True"
| "json_like_members ((k, v) # kvs) = (json_like v \<and> json_like_members kvs)"

text \<open>
  The text of a file is either a JSON text, identified with what it denotes, or text
  that is not JSON. Reading a file that exists does not fail here (an unreadable
  file is outside the model); writing can fail, see below.
\<close>

datatype file_text = Json json | Garbage

definition json_loads :: "file_text \<Rightarrow> error + pyval" where
  "json_loads txt = (case txt of Json j \<Rightarrow> Inr (of_json j) | Garbage \<Rightarrow> Inl JSONDecodeError)"

definition json_dumps :: "pyval \<Rightarrow> error + file_text" where
  "json_dumps v = (case to_json v of None \<Rightarrow> Inl TypeError | Some j \<Rightarrow> Inr (Json j))"

text \<open>\<^verbatim>\<open>history.append(x)\<close> and \<^verbatim>\<open>history.extend(xs)\<close> on whatever
  \<^verbatim>\<open>json.loads\<close> returned: only a list has these methods.\<close>

definition py_append :: "pyval \<Rightarrow> pyval \<Rightarrow> error + pyval" where
  "py_append h x = (case h of PList xs \<Rightarrow> Inr (PList (xs @ [x])) | _ \<Rightarrow> Inl AttributeError)"

definition py_extend :: "pyval \<Rightarrow> pyval list \<Rightarrow> error + pyval" where
  "py_extend h ys = (case h of PList xs \<Rightarrow> Inr (PList (xs @ ys)) | _ \<Rightarrow> Inl AttributeError)"

section \<open>The store\<close>

text \<open>
  A dictionary object lives at an address: \<^verbatim>\<open>self.context.update(...)\<close> changes the
  object in place, \<^verbatim>\<open>self.context.copy()\<close> makes a new object with the same
  bindings. What a key of a context is bound to is either a value that nobody else
  holds, kept by value, or a reference to a mutable object (a list, a data frame) that
  other code holds too: a copy of the dictionary copies the reference, not the object.
  Sharing is modelled at this one level, the level at which \<^verbatim>\<open>copy()\<close> decides.

  The world is the store of dictionary objects with the next free address, the store
  of shared objects, the file \<^verbatim>\<open>qna.json\<close> of the working directory (\<open>None\<close>
  when it does not exist), and the state of the disk under it: a write succeeds, or
  fails before the file is opened, or fails after the file was truncated, leaving the
  text given.
\<close>

type_synonym addr = nat

datatype ctxval = Val pyval | Ref addr

type_synonym ctxdict = "(string \<times> ctxval) list"

datatype disk = Healthy | Unwritable | Failing file_text

record world =
  heap :: "addr \<Rightarrow> ctxdict"
  next_addr :: addr
  objects :: "addr \<Rightarrow> pyval"
  qna_file :: "file_text option"
  disk :: disk

definition alloc :: "ctxdict \<Rightarrow> world \<Rightarrow> addr \<times> world" where
  "alloc d w =
     (next_addr w, w\<lparr>heap := (heap w)(next_addr w := d), next_addr := Suc (next_addr w)\<rparr>)"

text \<open>What a binding stands for, and a dictionary as a reader sees it now.\<close>

definition deref :: "(addr \<Rightarrow> pyval) \<Rightarrow> ctxval \<Rightarrow> pyval" where
  "deref objs v = (case v of Val x \<Rightarrow> x | Ref a \<Rightarrow> objs a)"

definition view :: "(addr \<Rightarrow> pyval) \<Rightarrow> ctxdict \<Rightarrow> pydict" where
  "view objs d = map (\<lambda>kv. (fst kv, deref objs (snd kv))) d"

text \<open>\<^verbatim>\<open>Path.write_text\<close> on \<^verbatim>\<open>qna.json\<close>.\<close>

definition write_text :: "file_text \<Rightarrow> world \<Rightarrow> (error + unit) \<times> world" where
  "write_text txt w =
     (case disk w of
        Healthy \<Rightarrow> (Inr (), w\<lparr>qna_file := Some txt\<rparr>)
      | Unwritable \<Rightarrow> (Inl OSError, w)
      | Failing left \<Rightarrow> (Inl OSError, w\<lparr>qna_file := Some left\<rparr>))"

section \<open>ai\_engine/code\_generator.py\<close>

record AnalysisQuery =
  query_text :: string
  data_info :: pydict
  requirements :: "pydict option"

record CodeGenerator =
  templates :: pydict

definition CodeGenerator_init :: CodeGenerator where
  "CodeGenerator_init = \<lparr>templates = []\<rparr>"

text \<open>\<^verbatim>\<open>getattr(data, "shape", None)\<close>.\<close>

definition getattr_shape :: "pyval \<Rightarrow> pyval" where
  "getattr_shape data = (case data of PObject attrs \<Rightarrow> dict_get attrs ''shape'' | _ \<Rightarrow> PNone)"

text \<open>\<^verbatim>\<open>CodeGenerator._process_query\<close>.\<close>

definition priv_process_query :: "CodeGenerator \<Rightarrow> string \<Rightarrow> pyval \<Rightarrow> error + AnalysisQuery" where
  "priv_process_query g q data =
     Inr \<lparr>query_text = q,
          data_info = [(''shape'', getattr_shape data)],
          requirements = Some []\<rparr>"

text \<open>\<^verbatim>\<open>CodeGenerator.validate_code\<close>: the body of the \<^verbatim>\<open>try\<close> returns
  \<^verbatim>\<open>True\<close>; the handler would return \<^verbatim>\<open>False\<close>.\<close>

definition validate_code :: "CodeGenerator \<Rightarrow> string \<Rightarrow> string \<Rightarrow> bool" where
  "validate_code g cd q = (case (Inr True :: error + bool) of Inl e \<Rightarrow> False | Inr b \<Rightarrow> b)"

text \<open>\<^verbatim>\<open>CodeGenerator.generate\<close>; the handler logs and raises again.\<close>

definition generate :: "CodeGenerator \<Rightarrow> string \<Rightarrow> pydict option \<Rightarrow> error + string" where
  "generate g q ctx =
     (case priv_process_query g q
             (case ctx of
                None \<Rightarrow> PNone
              | Some d \<Rightarrow> if d \<noteq> [] then dict_get d ''data'' else PNone) of
        Inl e \<Rightarrow> Inl e
      | Inr analysis_query \<Rightarrow>
          (let cd = q @ [CHR 0x0A] @ ''# TODO: Implement analysis''
           in if \<not> validate_code g cd q then Inl ValueError else Inr cd))"

section \<open>project\_manager/query\_manager.py\<close>

text \<open>The dataclass \<^verbatim>\<open>QueryResult\<close>; its \<^verbatim>\<open>context\<close> is a reference to a
  dictionary object, or \<^verbatim>\<open>None\<close>.\<close>

record QueryResult =
  qr_query :: string
  qr_code :: string
  qr_result :: pyval
  qr_timestamp :: string
  qr_context :: "addr option"

text \<open>A \<^verbatim>\<open>QueryManager\<close> holds its generator and the reference \<^verbatim>\<open>self.context\<close>,
  which is never assigned again after the constructor.\<close>

record QueryManager =
  code_generator :: CodeGenerator
  context_ref :: addr

definition QueryManager_init :: "world \<Rightarrow> QueryManager \<times> world" where
  "QueryManager_init w =
     (let (a, w') = alloc [] w
      in (\<lparr>code_generator = CodeGenerator_init, context_ref = a\<rparr>, w'))"

text \<open>\<^verbatim>\<open>QueryManager._execute_analysis\<close>.\<close>

definition priv_execute_analysis :: "string \<Rightarrow> pyval" where
  "priv_execute_analysis cd = PStr ''Analysis results placeholder''"

text \<open>\<^verbatim>\<open>QueryManager._create_result\<close>; \<open>now\<close> is what
  \<^verbatim>\<open>datetime.now().isoformat()\<close> returns during the call.
  \<^verbatim>\<open>self.context.copy()\<close> is shallow: the new dictionary has the bindings of the
  old one, references included.\<close>

definition priv_create_result ::
  "QueryManager \<Rightarrow> string \<Rightarrow> string \<Rightarrow> pyval \<Rightarrow> string \<Rightarrow> world \<Rightarrow> QueryResult \<times> world" where
  "priv_create_result m q cd res now w =
     (let (a, w') = alloc (heap w (context_ref m)) w
      in (\<lparr>qr_query = q, qr_code = cd, qr_result = res, qr_timestamp = now,
           qr_context = Some a\<rparr>, w'))"

text \<open>The block \<^verbatim>\<open># Load existing history\<close> of both writers.\<close>

definition load_history :: "file_text option \<Rightarrow> error + pyval" where
  "load_history f = (case f of Some txt \<Rightarrow> json_loads txt | None \<Rightarrow> Inr (PList []))"

text \<open>The dictionary \<^verbatim>\<open>_update_history\<close> appends for a result, as
  \<^verbatim>\<open>json.dumps\<close> then reads it.\<close>

definition history_entry :: "QueryResult \<Rightarrow> world \<Rightarrow> pyval" where
  "history_entry r w =
     PDict [(''query'', PStr (qr_query r)),
            (''code'', PStr (qr_code r)),
            (''timestamp'', PStr (qr_timestamp r)),
            (''context'',
               (case qr_context r of
                  None \<Rightarrow> PNone
                | Some a \<Rightarrow> PDict (view (objects w) (heap w a))))]"

text \<open>\<^verbatim>\<open>QueryManager._update_history\<close>; the handler logs and raises again.
  \<^verbatim>\<open>json.dumps\<close> is evaluated before \<^verbatim>\<open>write_text\<close> is called.\<close>

definition priv_update_history :: "QueryResult \<Rightarrow> world \<Rightarrow> (error + unit) \<times> world" where
  "priv_update_history r w =
     (case load_history (qna_file w) of
        Inl e \<Rightarrow> (Inl e, w)
      | Inr hist \<Rightarrow>
          (case py_append hist (history_entry r w) of
             Inl e \<Rightarrow> (Inl e, w)
           | Inr hist' \<Rightarrow>
               (case json_dumps hist' of
                  Inl e \<Rightarrow> (Inl e, w)
                | Inr txt \<Rightarrow> write_text txt w)))"

text \<open>\<^verbatim>\<open>QueryManager.bulk_update_history\<close>.\<close>

definition bulk_update_history :: "pydict list \<Rightarrow> world \<Rightarrow> (error + unit) \<times> world" where
  "bulk_update_history entries w =
     (case load_history (qna_file w) of
        Inl e \<Rightarrow> (Inl e, w)
      | Inr hist \<Rightarrow>
          (case py_extend hist (map PDict entries) of
             Inl e \<Rightarrow> (Inl e, w)
           | Inr hist' \<Rightarrow>
               (case json_dumps hist' of
                  Inl e \<Rightarrow> (Inl e, w)
                | Inr txt \<Rightarrow> write_text txt w)))"

text \<open>The block \<^verbatim>\<open># Update context\<close> of \<^verbatim>\<open>process_query\<close>:
  \<^verbatim>\<open>if context: self.context.update(context)\<close>, where \<^verbatim>\<open>None\<close> and
  \<^verbatim>\<open>{}\<close> are false.\<close>

definition update_context :: "ctxdict option \<Rightarrow> QueryManager \<Rightarrow> world \<Rightarrow> world" where
  "update_context ctx m w =
     (case ctx of
        None \<Rightarrow> w
      | Some d \<Rightarrow>
          if d \<noteq> []
          then w\<lparr>heap := (heap w)(context_ref m := dict_update (heap w (context_ref m)) d)\<rparr>
          else w)"

text \<open>\<^verbatim>\<open>QueryManager.process_query\<close>. The handler logs and raises again, so the
  caller gets the error together with the world as the failed call left it. The
  generator only reads the context, so it is handed the context as it reads now.\<close>

definition process_query ::
  "string \<Rightarrow> ctxdict option \<Rightarrow> string \<Rightarrow> QueryManager \<Rightarrow> world \<Rightarrow> (error + QueryResult) \<times> world" where
  "process_query q ctx now m w =
     (let w1 = update_context ctx m w
      in case generate (code_generator m) q (Some (view (objects w1) (heap w1 (context_ref m)))) of
           Inl e \<Rightarrow> (Inl e, w1)
         | Inr cd \<Rightarrow>
             (let res = priv_execute_analysis cd;
                  (qr, w2) = priv_create_result m q cd res now w1
              in case priv_update_history qr w2 of
                   (Inl e, w3) \<Rightarrow> (Inl e, w3)
                 | (Inr u, w3) \<Rightarrow> (Inr qr, w3)))"

section \<open>git\_manager/git\_controller.py\<close>

text \<open>\<^verbatim>\<open>GitController.commit_changes\<close> runs git in a subprocess. It touches neither
  the session, the manager nor \<^verbatim>\<open>qna.json\<close>; whether git succeeds is for the
  environment to say.\<close>

definition commit_changes :: "bool \<Rightarrow> error + unit" where
  "commit_changes git_succeeds = (if git_succeeds then Inr () else Inl CalledProcessError)"

section \<open>The console\<close>

text \<open>
  The console is the one of the library \<^verbatim>\<open>rich\<close>, which is not part of the
  repository. It prints a text as console markup, and its renderer raises
  \<^verbatim>\<open>MarkupError\<close> on a text it cannot parse (a closing tag that closes nothing, for
  instance). Which texts it refuses is a parameter, and so is the text \<^verbatim>\<open>str(e)\<close>
  that Python gives an error. One thing is taken from the renderer itself: a text
  without an opening bracket is returned as it is and never refused.
\<close>

record console =
  refuses :: "string \<Rightarrow> bool"
  error_text :: "error \<Rightarrow> string"

definition print_raises :: "console \<Rightarrow> string \<Rightarrow> bool" where
  "print_raises c t = (CHR ''['' \<in> set t \<and> refuses c t)"

section \<open>chat\_manager/chat\_session.py\<close>

text \<open>
  A \<^verbatim>\<open>ChatSession\<close>: its manager, whether it has a git controller, and the list
  \<^verbatim>\<open>self.history\<close>. Of the console output only what can raise is modelled: the
  table of \<^verbatim>\<open>_show_history\<close> and the error line of the loop's handler. The other
  texts the session prints are fixed (welcome, help, farewell), or are shown without
  markup (the generated code), or are the placeholder result.
\<close>

record ChatSession =
  query_manager :: QueryManager
  git_controller :: bool
  history :: "pydict list"

definition ChatSession_init :: "bool \<Rightarrow> world \<Rightarrow> ChatSession \<times> world" where
  "ChatSession_init auto_commit w =
     (let (m, w') = QueryManager_init w
      in (\<lparr>query_manager = m, git_controller = auto_commit, history = []\<rparr>, w'))"

text \<open>\<^verbatim>\<open>ChatSession._get_user_input\<close>: \<^verbatim>\<open>Prompt.ask\<close> returns the typed line
  stripped.\<close>

definition priv_get_user_input :: "string \<Rightarrow> string" where
  "priv_get_user_input typed = py_strip typed"

text \<open>\<^verbatim>\<open>ChatSession._handle_result\<close>; \<open>now\<close> is its own reading of the clock.\<close>

definition priv_handle_result :: "QueryResult \<Rightarrow> string \<Rightarrow> ChatSession \<Rightarrow> ChatSession" where
  "priv_handle_result r now s =
     s\<lparr>history := history s @
         [[(''query'', PStr (qr_query r)),
           (''timestamp'', PStr now),
           (''code'', PStr (qr_code r))]]\<rparr>"

text \<open>\<^verbatim>\<open>t.split('T')[1]\<close>: the text between the first \<open>T\<close> and the next, or
  \<^verbatim>\<open>IndexError\<close> when there is no \<open>T\<close>.\<close>

definition split_second :: "string \<Rightarrow> error + string" where
  "split_second t =
     (case dropWhile (\<lambda>c. c \<noteq> CHR ''T'') t of
        [] \<Rightarrow> Inl IndexError
      | x # rest \<Rightarrow> Inr (takeWhile (\<lambda>c. c \<noteq> CHR ''T'') rest))"

text \<open>
  One row of the table of \<^verbatim>\<open>_show_history\<close>, without its first cell (the row's
  number, digits only): \<^verbatim>\<open>entry['query']\<close> and
  \<^verbatim>\<open>entry['timestamp'].split('T')[1][:8]\<close>, evaluated in this order, then
  \<^verbatim>\<open>add_row\<close>, which takes a text or \<^verbatim>\<open>None\<close> as a cell. The clock's texts are
  ASCII, so the first eight bytes are the first eight characters.
\<close>

definition history_row :: "pydict \<Rightarrow> error + string list" where
  "history_row entry =
     (case map_of entry ''query'' of
        None \<Rightarrow> Inl KeyError
      | Some qv \<Rightarrow>
          (case map_of entry ''timestamp'' of
             None \<Rightarrow> Inl KeyError
           | Some tv \<Rightarrow>
               (case tv of
                  PStr t \<Rightarrow>
                    (case split_second t of
                       Inl e \<Rightarrow> Inl e
                     | Inr part \<Rightarrow>
                         (case qv of
                            PStr q \<Rightarrow> Inr [q, take 8 part]
                          | PNone \<Rightarrow> Inr [[], take 8 part]
                          | _ \<Rightarrow> Inl NotRenderableError))
                | _ \<Rightarrow> Inl AttributeError)))"

fun history_rows :: "pydict list \<Rightarrow> error + string list list" where
  "history_rows [] = Inr []"
| "history_rows (entry # entries) =
     (case history_row entry of
        Inl e \<Rightarrow> Inl e
      | Inr row \<Rightarrow>
          (case history_rows entries of
             Inl e \<Rightarrow> Inl e
           | Inr rows \<Rightarrow> Inr (row # rows)))"

text \<open>\<^verbatim>\<open>ChatSession._show_history\<close>: \<open>None\<close> when it returns, the error when it
  raises. The table is printed once all its rows are built.\<close>

definition priv_show_history :: "console \<Rightarrow> ChatSession \<Rightarrow> error option" where
  "priv_show_history c s =
     (if history s = [] then None
      else
        (case history_rows (history s) of
           Inl e \<Rightarrow> Some e
         | Inr rows \<Rightarrow>
             if list_ex (list_ex (print_raises c)) rows then Some MarkupError else None))"

text \<open>\<^verbatim>\<open>ChatSession._save_history\<close> and \<^verbatim>\<open>ChatSession._end_session\<close>.\<close>

definition priv_save_history :: "ChatSession \<Rightarrow> world \<Rightarrow> (error + unit) \<times> world" where
  "priv_save_history s w = bulk_update_history (history s) w"

definition priv_end_session :: "ChatSession \<Rightarrow> world \<Rightarrow> (error + unit) \<times> world" where
  "priv_end_session s w = priv_save_history s w"

text \<open>
  What one pass of the loop of \<^verbatim>\<open>start_session\<close> meets: a line typed at the prompt,
  with the two clock readings a turn takes (in \<^verbatim>\<open>_create_result\<close> and in
  \<^verbatim>\<open>_handle_result\<close>) and whether git succeeds should the pass commit; or Ctrl-C
  at the prompt.
\<close>

datatype event = Line string string string bool | KeyboardInterrupt

text \<open>How a pass ends: the loop goes on, the loop is left by \<^verbatim>\<open>break\<close>, or an
  error leaves \<^verbatim>\<open>start_session\<close>.\<close>

datatype control = Continue | Break | Raise error

text \<open>The clause \<^verbatim>\<open>except Exception\<close> of the loop: it prints the error line
  \<^verbatim>\<open>f"\n[red]Error:[/red] {str(e)}"\<close>; an error raised by that print is not
  caught.\<close>

definition report_error :: "console \<Rightarrow> error \<Rightarrow> control" where
  "report_error c e =
     (if print_raises c ([CHR 0x0A] @ ''[red]Error:[/red] '' @ error_text c e)
      then Raise MarkupError
      else Continue)"

text \<open>The body of \<^verbatim>\<open>while True\<close>.\<close>

definition loop_body ::
  "console \<Rightarrow> event \<Rightarrow> ChatSession \<Rightarrow> world \<Rightarrow> control \<times> ChatSession \<times> world" where
  "loop_body c ev s w =
     (case ev of
        KeyboardInterrupt \<Rightarrow> (Break, s, w)
      | Line typed now1 now2 git_succeeds \<Rightarrow>
          (let q = priv_get_user_input typed in
           if lower q = ''exit'' then
             (case priv_end_session s w of
                (Inl e, w') \<Rightarrow> (report_error c e, s, w')
              | (Inr u, w') \<Rightarrow> (Break, s, w'))
           else if lower q = ''help'' then (Continue, s, w)
           else if lower q = ''history'' then
             (case priv_show_history c s of
                Some e \<Rightarrow> (report_error c e, s, w)
              | None \<Rightarrow> (Continue, s, w))
           else
             (case process_query q None now1 (query_manager s) w of
                (Inl e, w') \<Rightarrow> (report_error c e, s, w')
              | (Inr r, w') \<Rightarrow>
                  (let s' = priv_handle_result r now2 s in
                   if git_controller s then
                     (case commit_changes git_succeeds of
                        Inl e \<Rightarrow> (report_error c e, s', w')
                      | Inr u \<Rightarrow> (Continue, s', w'))
                   else (Continue, s', w')))))"

text \<open>\<^verbatim>\<open>ChatSession.start_session\<close> on the events it meets; \<open>Continue\<close> when
  they run out with the loop still at the prompt.\<close>

fun start_session ::
  "console \<Rightarrow> event list \<Rightarrow> ChatSession \<Rightarrow> world \<Rightarrow> control \<times> ChatSession \<times> world" where
  "start_session c [] s w = (Continue, s, w)"
| "start_session c (ev # evs) s w =
     (case loop_body c ev s w of
        (Continue, s', w') \<Rightarrow> start_session c evs s' w'
      | (ctl, s', w') \<Rightarrow> (ctl, s', w'))"

section \<open>Sequences of calls and a starting world\<close>

text \<open>Several results appended one at a time: \<^verbatim>\<open>_update_history\<close> is called for
  each in turn, and the first error ends the sequence, as the exception would.\<close>

fun update_history_all :: "QueryResult list \<Rightarrow> world \<Rightarrow> (error + unit) \<times> world" where
  "update_history_all [] w = (Inr (), w)"
| "update_history_all (r # rs) w =
     (case priv_update_history r w of
        (Inl e, w') \<Rightarrow> (Inl e, w')
      | (Inr u, w') \<Rightarrow> update_history_all rs w')"


text \<open>Code outside the repository that holds a shared object sets it up or changes
  it in place (\<^verbatim>\<open>columns.append("C")\<close>, say).\<close>

definition mutate :: "addr \<Rightarrow> pyval \<Rightarrow> world \<Rightarrow> world" where
  "mutate a v w = w\<lparr>objects := (objects w)(a := v)\<rparr>"

text \<open>A project as \<^verbatim>\<open>ProjectInitializer._initialize_files\<close> leaves it: no objects
  yet, \<^verbatim>\<open>qna.json\<close> holding \<^verbatim>\<open>[]\<close>, on a healthy disk.\<close>

definition new_project :: world where
  "new_project =
     \<lparr>heap = (\<lambda>a. []), next_addr = 0, objects = (\<lambda>a. PNone),
      qna_file = Some (Json (JArr [])), disk = Healthy\<rparr>"

text \<open>The manager a first \<^verbatim>\<open>QueryManager()\<close> gives in a new project (its context
  is the object at address 0, empty), the world after that constructor, and a session
  without git controller around that manager.\<close>

definition first_manager :: QueryManager where
  "first_manager = \<lparr>code_generator = CodeGenerator_init, context_ref = 0\<rparr>"

definition first_world :: world where
  "first_world = new_project\<lparr>next_addr := 1\<rparr>"

definition first_session :: ChatSession where
  "first_session = \<lparr>query_manager = first_manager, git_controller = False, history = []\<rparr>"

section \<open>What a turn creates\<close>

text \<open>
  Names for what \<^verbatim>\<open>process_query\<close> builds on its way to the history write, used to
  state the facts below: the manager's context once the turn's context is merged in,
  the world once the result with its copy of the context exists, and that result.
\<close>

definition merged :: "ctxdict option \<Rightarrow> QueryManager \<Rightarrow> world \<Rightarrow> ctxdict" where
  "merged ctx m w =
     (case ctx of None \<Rightarrow> heap w (context_ref m)
                | Some d \<Rightarrow> dict_update (heap w (context_ref m)) d)"

definition created :: "ctxdict option \<Rightarrow> QueryManager \<Rightarrow> world \<Rightarrow> world" where
  "created ctx m w =
     w\<lparr>heap := (heap w)(context_ref m := merged ctx m w, next_addr w := merged ctx m w),
       next_addr := Suc (next_addr w)\<rparr>"

definition turn_result :: "string \<Rightarrow> string \<Rightarrow> world \<Rightarrow> QueryResult" where
  "turn_result q now w =
     \<lparr>qr_query = q, qr_code = q @ [CHR 0x0A] @ ''# TODO: Implement analysis'',
      qr_result = PStr ''Analysis results placeholder'', qr_timestamp = now,
      qr_context = Some (next_addr w)\<rparr>"

section \<open>Facts about the generator\<close>

lemma validate_code_holds: "validate_code g cd q"
  by (simp add: validate_code_def)

lemma generate_returns: "generate g q ctx = Inr (q @ [CHR 0x0A] @ ''# TODO: Implement analysis'')"
  by (simp add: generate_def priv_process_query_def validate_code_holds)

text \<open>
  Claim C1 asks that a fragment with a disallowed construct is refused. The code does
  not do that: \<open>validate_code\<close> approves a fragment that imports \<open>os\<close> and
  removes a file. Its docstring promises a check for safety, with \<^verbatim>\<open>False\<close> for
  code that is not valid, and \<open>generate\<close> has the path that raises on a refusal;
  the body is a stub that returns \<^verbatim>\<open>True\<close>.
\<close>

theorem validate_code_approves_file_access:
  "validate_code CodeGenerator_init ''import os; os.remove(path)'' ''delete all files in /tmp''
     = True"
  by (simp add: validate_code_def)

text \<open>
  Claim C6, as the code has it: structuring never fails. For every query text, blank
  or not, \<open>_process_query\<close> returns an analysis query whose text is the raw text,
  untrimmed, and \<open>generate\<close> returns a fragment.
\<close>

theorem structuring_never_fails:
  "(\<exists>aq. priv_process_query g q d = Inr aq \<and> query_text aq = q)
   \<and> (\<exists>cd. generate g q ctx = Inr cd)"
  by (simp add: priv_process_query_def generate_returns)

text \<open>
  Claim C6 as stated fails: a query of three spaces is structured, and code is
  generated for it.
\<close>

theorem blank_query_is_structured:
  "priv_process_query CodeGenerator_init ''   '' PNone =
     Inr \<lparr>query_text = ''   '', data_info = [(''shape'', PNone)], requirements = Some []\<rparr>
   \<and> generate CodeGenerator_init ''   '' None =
     Inr (''   '' @ [CHR 0x0A] @ ''# TODO: Implement analysis'')"
  by (simp add: priv_process_query_def getattr_shape_def generate_returns)

text \<open>
  Claim C7: code generation is deterministic. For a fixed query and context, two calls
  of \<open>generate\<close> return the same fragment, whatever the state of the generator
  object at each call: the fragment is the query followed by a fixed comment line.
\<close>

theorem generate_deterministic:
  "generate g q ctx = generate g' q ctx
   \<and> generate g q ctx = Inr (q @ [CHR 0x0A] @ ''# TODO: Implement analysis'')"
  by (simp add: generate_returns)

text \<open>
  Claim C8: validation is idempotent. Validating the same fragment again returns the
  same verdict, whatever the state of the generator object at the second call.
\<close>

theorem validate_code_idempotent:
  "validate_code g cd q = validate_code g' cd q"
  by (simp add: validate_code_def)

section \<open>Facts about JSON\<close>

lemma to_json_of_json: "to_json (of_json j) = Some j"
  and to_json_list_of_json: "to_json_list (of_json_list js) = Some js"
  and to_json_members_of_json: "to_json_members (of_json_members ms) = Some ms"
  by (induction j and js and ms rule: of_json_of_json_list_of_json_members.induct) simp_all

lemma json_like_round_trip:
  "json_like v \<Longrightarrow> \<exists>j. to_json v = Some j \<and> of_json j = v"
  and json_like_list_round_trip:
  "json_like_list vs \<Longrightarrow> \<exists>js. to_json_list vs = Some js \<and> of_json_list js = vs"
  and json_like_members_round_trip:
  "json_like_members kvs \<Longrightarrow> \<exists>ms. to_json_members kvs = Some ms \<and> of_json_members ms = kvs"
  by (induction v and vs and kvs rule: to_json_to_json_list_to_json_members.induct) auto

lemma to_json_list_append:
  "to_json_list (xs @ ys) =
     (case to_json_list xs of
        None \<Rightarrow> None
      | Some a \<Rightarrow> (case to_json_list ys of None \<Rightarrow> None | Some b \<Rightarrow> Some (a @ b)))"
  by (induction xs) (auto split: option.splits)

lemma of_json_list_append: "of_json_list (xs @ ys) = of_json_list xs @ of_json_list ys"
  by (induction xs) simp_all

lemma of_json_list_inj: "of_json_list a = of_json_list b \<Longrightarrow> a = b"
  by (metis option.inject to_json_list_of_json)

section \<open>Facts about the history writers\<close>

lemma load_history_list:
  "load_history f = Inr (PList xs) \<longleftrightarrow>
     (\<exists>prior. xs = of_json_list prior \<and> (f = None \<and> prior = [] \<or> f = Some (Json (JArr prior))))"
proof (cases f)
  case None
  then show ?thesis by (auto simp: load_history_def)
next
  case (Some ft)
  show ?thesis
  proof (cases ft)
    case (Json j)
    with Some show ?thesis
      by (cases j) (auto simp: load_history_def json_loads_def)
  next
    case Garbage
    with Some show ?thesis by (simp add: load_history_def json_loads_def)
  qed
qed

lemma load_history_written [simp]: "load_history (Some (Json (JArr js))) = Inr (PList (of_json_list js))"
  by (simp add: load_history_def json_loads_def)

text \<open>What the two writers share after loading: dump the new list, write the text.\<close>

lemma dump_and_write:
  "(case json_dumps (PList (of_json_list prior @ new)) of
      Inl e \<Rightarrow> (Inl e, w)
    | Inr txt \<Rightarrow> write_text txt w) =
   (case to_json_list new of
      None \<Rightarrow> (Inl TypeError, w)
    | Some js \<Rightarrow>
        (case disk w of
           Healthy \<Rightarrow> (Inr (), w\<lparr>qna_file := Some (Json (JArr (prior @ js)))\<rparr>)
         | Unwritable \<Rightarrow> (Inl OSError, w)
         | Failing left \<Rightarrow> (Inl OSError, w\<lparr>qna_file := Some left\<rparr>)))"
  by (simp add: json_dumps_def write_text_def to_json_list_append to_json_list_of_json
      split: option.splits)

lemma priv_update_history_on_array:
  "load_history (qna_file w) = Inr (PList (of_json_list prior)) \<Longrightarrow>
   priv_update_history r w =
     (case to_json (history_entry r w) of
        None \<Rightarrow> (Inl TypeError, w)
      | Some ej \<Rightarrow>
          (case disk w of
             Healthy \<Rightarrow> (Inr (), w\<lparr>qna_file := Some (Json (JArr (prior @ [ej])))\<rparr>)
           | Unwritable \<Rightarrow> (Inl OSError, w)
           | Failing left \<Rightarrow> (Inl OSError, w\<lparr>qna_file := Some left\<rparr>)))"
  by (simp add: priv_update_history_def py_append_def dump_and_write split: option.splits)

lemma bulk_update_history_on_array:
  "load_history (qna_file w) = Inr (PList (of_json_list prior)) \<Longrightarrow>
   bulk_update_history entries w =
     (case to_json_list (map PDict entries) of
        None \<Rightarrow> (Inl TypeError, w)
      | Some js \<Rightarrow>
          (case disk w of
             Healthy \<Rightarrow> (Inr (), w\<lparr>qna_file := Some (Json (JArr (prior @ js)))\<rparr>)
           | Unwritable \<Rightarrow> (Inl OSError, w)
           | Failing left \<Rightarrow> (Inl OSError, w\<lparr>qna_file := Some left\<rparr>)))"
  by (simp add: bulk_update_history_def py_extend_def dump_and_write)

lemma load_history_not_array:
  "(\<And>prior. load_history f \<noteq> Inr (PList (of_json_list prior))) \<Longrightarrow>
   (\<exists>e. load_history f = Inl e \<and> e = JSONDecodeError)
   \<or> (\<exists>v. load_history f = Inr v \<and> (\<forall>xs. v \<noteq> PList xs))"
proof (cases "load_history f")
  case (Inl e)
  then show ?thesis
    by (auto simp: load_history_def json_loads_def split: option.splits file_text.splits)
next
  case (Inr v)
  assume n: "\<And>prior. load_history f \<noteq> Inr (PList (of_json_list prior))"
  have "\<forall>xs. v \<noteq> PList xs"
  proof (intro allI notI)
    fix xs assume "v = PList xs"
    with Inr have "load_history f = Inr (PList xs)" by simp
    then obtain prior where "xs = of_json_list prior" by (auto simp: load_history_list)
    with \<open>load_history f = Inr (PList xs)\<close> n show False by blast
  qed
  with Inr show ?thesis by blast
qed

lemma priv_update_history_not_array:
  "(\<And>prior. load_history (qna_file w) \<noteq> Inr (PList (of_json_list prior))) \<Longrightarrow>
   \<exists>e. priv_update_history r w = (Inl e, w) \<and> (e = JSONDecodeError \<or> e = AttributeError)"
  by (drule load_history_not_array)
     (auto simp: priv_update_history_def py_append_def split: pyval.splits)

lemma bulk_update_history_not_array:
  "(\<And>prior. load_history (qna_file w) \<noteq> Inr (PList (of_json_list prior))) \<Longrightarrow>
   \<exists>e. bulk_update_history entries w = (Inl e, w) \<and> (e = JSONDecodeError \<or> e = AttributeError)"
  by (drule load_history_not_array)
     (auto simp: bulk_update_history_def py_extend_def split: pyval.splits)

section \<open>Facts about a turn\<close>

lemma update_context_facts:
  "qna_file (update_context ctx m w) = qna_file w
   \<and> next_addr (update_context ctx m w) = next_addr w
   \<and> objects (update_context ctx m w) = objects w
   \<and> disk (update_context ctx m w) = disk w
   \<and> heap (update_context ctx m w) =
      (heap w)(context_ref m :=
         (case ctx of None \<Rightarrow> heap w (context_ref m)
                    | Some d \<Rightarrow> dict_update (heap w (context_ref m)) d))"
  by (auto simp: update_context_def split: option.splits)

lemma create_turn:
  "priv_create_result m q cd res now (update_context ctx m w) =
     (\<lparr>qr_query = q, qr_code = cd, qr_result = res, qr_timestamp = now,
       qr_context = Some (next_addr w)\<rparr>, created ctx m w)"
  by (simp add: priv_create_result_def alloc_def created_def merged_def update_context_facts)

lemma process_query_unfold:
  "process_query q ctx now m w =
     (case priv_update_history (turn_result q now w) (created ctx m w) of
        (Inl e, w3) \<Rightarrow> (Inl e, w3)
      | (Inr u, w3) \<Rightarrow> (Inr (turn_result q now w), w3))"
  by (simp add: process_query_def generate_returns priv_execute_analysis_def create_turn
      turn_result_def split: prod.splits sum.splits)

lemma created_facts:
  "qna_file (created ctx m w) = qna_file w \<and> disk (created ctx m w) = disk w
   \<and> objects (created ctx m w) = objects w
   \<and> next_addr (created ctx m w) = Suc (next_addr w)
   \<and> heap (created ctx m w) (next_addr w) = merged ctx m w
   \<and> heap (created ctx m w) (context_ref m) = merged ctx m w"
  by (simp add: created_def)

lemma history_entry_turn:
  "history_entry (turn_result q now w) (created ctx m w) =
     PDict [(''query'', PStr q),
            (''code'', PStr (q @ [CHR 0x0A] @ ''# TODO: Implement analysis'')),
            (''timestamp'', PStr now),
            (''context'', PDict (view (objects w) (merged ctx m w)))]"
  by (simp add: history_entry_def turn_result_def created_facts)

lemma to_json_entry:
  "to_json (PDict [(''query'', PStr q), (''code'', PStr cd), (''timestamp'', PStr now),
                   (''context'', cv)]) =
     map_option (\<lambda>cj. JObj [(''query'', JStr q), (''code'', JStr cd), (''timestamp'', JStr now),
                            (''context'', cj)]) (to_json cv)"
  by (simp split: option.splits)

lemma process_query_on_array:
  assumes "load_history (qna_file w) = Inr (PList (of_json_list prior))"
      and "cv = PDict (view (objects w) (merged ctx m w))"
  shows "process_query q ctx now m w =
           (case to_json cv of
              None \<Rightarrow> (Inl TypeError, created ctx m w)
            | Some cj \<Rightarrow>
                (case disk w of
                   Healthy \<Rightarrow>
                     (Inr (turn_result q now w),
                      (created ctx m w)\<lparr>qna_file := Some (Json (JArr (prior @
                         [JObj [(''query'', JStr q),
                                (''code'', JStr (q @ [CHR 0x0A] @ ''# TODO: Implement analysis'')),
                                (''timestamp'', JStr now),
                                (''context'', cj)]])))\<rparr>)
                 | Unwritable \<Rightarrow> (Inl OSError, created ctx m w)
                 | Failing left \<Rightarrow> (Inl OSError, (created ctx m w)\<lparr>qna_file := Some left\<rparr>)))"
proof -
  have l: "load_history (qna_file (created ctx m w)) = Inr (PList (of_json_list prior))"
    using assms(1) by (simp add: created_facts)
  have e: "to_json (history_entry (turn_result q now w) (created ctx m w)) =
     map_option (\<lambda>cj. JObj [(''query'', JStr q),
                            (''code'', JStr (q @ [CHR 0x0A] @ ''# TODO: Implement analysis'')),
                            (''timestamp'', JStr now),
                            (''context'', cj)]) (to_json cv)"
    by (simp only: history_entry_turn assms(2) [symmetric] to_json_entry)
  show ?thesis
    by (simp only: process_query_unfold priv_update_history_on_array [OF l] e)
       (simp add: created_facts split: option.splits disk.splits)
qed

lemma process_query_not_array:
  assumes "\<And>prior. load_history (qna_file w) \<noteq> Inr (PList (of_json_list prior))"
  shows "\<exists>e. process_query q ctx now m w = (Inl e, created ctx m w)
              \<and> (e = JSONDecodeError \<or> e = AttributeError)"
proof -
  from assms
  have n: "\<And>prior. load_history (qna_file (created ctx m w)) \<noteq> Inr (PList (of_json_list prior))"
    by (simp add: created_facts)
  from priv_update_history_not_array [OF n, of "turn_result q now w"] show ?thesis
    by (auto simp: process_query_unfold)
qed

lemma process_query_succeeds:
  assumes "process_query q ctx now m w = (Inr r, w')"
  shows "r = turn_result q now w
         \<and> disk w = Healthy
         \<and> (\<exists>prior cj.
               load_history (qna_file w) = Inr (PList (of_json_list prior))
             \<and> to_json (PDict (view (objects w) (merged ctx m w))) = Some cj
             \<and> w' = (created ctx m w)\<lparr>qna_file := Some (Json (JArr (prior @
                         [JObj [(''query'', JStr q),
                                (''code'', JStr (q @ [CHR 0x0A] @ ''# TODO: Implement analysis'')),
                                (''timestamp'', JStr now),
                                (''context'', cj)]])))\<rparr>)"
proof (cases "\<exists>prior. load_history (qna_file w) = Inr (PList (of_json_list prior))")
  case True
  then obtain prior where p: "load_history (qna_file w) = Inr (PList (of_json_list prior))"
    by blast
  define cv where "cv = PDict (view (objects w) (merged ctx m w))"
  note u = process_query_on_array [OF p cv_def, of q now]
  show ?thesis
  proof (cases "to_json cv")
    case None
    with u assms show ?thesis by simp
  next
    case (Some cj)
    with u assms p show ?thesis
      unfolding cv_def [symmetric]
      by (cases "disk w") auto
  qed
next
  case False
  then have "\<And>prior. load_history (qna_file w) \<noteq> Inr (PList (of_json_list prior))"
    by blast
  from process_query_not_array [OF this, of q ctx now m] assms show ?thesis
    by auto
qed

lemma process_query_fails:
  assumes "process_query q ctx now m w = (Inl e, w')"
  shows "e \<in> {JSONDecodeError, AttributeError, TypeError, OSError}
         \<and> w' = (if e = OSError
                 then (case disk w of
                         Failing left \<Rightarrow> (created ctx m w)\<lparr>qna_file := Some left\<rparr>
                       | _ \<Rightarrow> created ctx m w)
                 else created ctx m w)"
proof (cases "\<exists>prior. load_history (qna_file w) = Inr (PList (of_json_list prior))")
  case True
  then obtain prior where p: "load_history (qna_file w) = Inr (PList (of_json_list prior))"
    by blast
  define cv where "cv = PDict (view (objects w) (merged ctx m w))"
  note u = process_query_on_array [OF p cv_def, of q now]
  show ?thesis
  proof (cases "to_json cv")
    case None
    with u assms show ?thesis by auto
  next
    case (Some cj)
    with u assms show ?thesis
      by (cases "disk w") auto
  qed
next
  case False
  then have "\<And>prior. load_history (qna_file w) \<noteq> Inr (PList (of_json_list prior))"
    by blast
  from process_query_not_array [OF this, of q ctx now m] assms show ?thesis
    by auto
qed

lemma first_manager_world: "QueryManager_init new_project = (first_manager, first_world)"
  by (simp add: QueryManager_init_def alloc_def new_project_def first_manager_def
      first_world_def fun_eq_iff)

lemma first_session_world: "ChatSession_init False new_project = (first_session, first_world)"
  by (simp add: ChatSession_init_def first_manager_world first_session_def)

lemmas eval_defs =
  first_manager_def first_world_def first_session_def new_project_def
  QueryManager_init_def ChatSession_init_def alloc_def process_query_def update_context_def
  generate_returns priv_execute_analysis_def priv_create_result_def priv_update_history_def
  load_history_def json_loads_def py_append_def py_extend_def json_dumps_def history_entry_def
  bulk_update_history_def priv_save_history_def priv_end_session_def priv_handle_result_def
  loop_body_def lower_def lower_char_def write_text_def view_def deref_def
  priv_get_user_input_def py_strip_def whitespace_def priv_show_history_def
  commit_changes_def mutate_def




text \<open>
  Claim C3, as the code has it: after a turn that fails, the manager's context is its
  value before the turn merged with the context given to that turn (new keys override
  old): the merge comes before generation and is not undone. With no context given, or
  an empty one, as in every turn of the interactive session, the context after the
  failed turn is the context before it. The code has no \<open>last_result\<close>.
\<close>

theorem failed_turn_context:
  "process_query q ctx now m w = (Inl e, w') \<Longrightarrow>
     heap w' (context_ref m) =
       (case ctx of None \<Rightarrow> heap w (context_ref m)
                  | Some d \<Rightarrow> dict_update (heap w (context_ref m)) d)"
proof -
  assume a: "process_query q ctx now m w = (Inl e, w')"
  from process_query_fails [OF a] have "heap w' (context_ref m) = merged ctx m w"
    by (auto simp: created_facts split: disk.splits)
  then show ?thesis
    by (simp add: merged_def)
qed

text \<open>The theorem of C3 at work: a turn given a requirement, over a history file that
  is not JSON, fails, and the context is the merge.\<close>

theorem failed_turn_context_witness:
  "\<exists>e w'. process_query ''mean of column A'' (Some [(''confidence'', Val (PInt 95))])
              ''2026-11-03T10:00:00''
              first_manager (first_world\<lparr>qna_file := Some Garbage\<rparr>) = (Inl e, w')
     \<and> heap w' (context_ref first_manager)
         = dict_update (heap (first_world\<lparr>qna_file := Some Garbage\<rparr>) (context_ref first_manager))
             [(''confidence'', Val (PInt 95))]"
proof -
  have "\<exists>e w'. process_query ''mean of column A'' (Some [(''confidence'', Val (PInt 95))])
              ''2026-11-03T10:00:00''
              first_manager (first_world\<lparr>qna_file := Some Garbage\<rparr>) = (Inl e, w')"
    by (simp add: eval_defs)
  then obtain e w' where
    bad: "process_query ''mean of column A'' (Some [(''confidence'', Val (PInt 95))])
              ''2026-11-03T10:00:00''
              first_manager (first_world\<lparr>qna_file := Some Garbage\<rparr>) = (Inl e, w')"
    by blast
  from failed_turn_context [OF bad] bad show ?thesis
    by auto
qed

text \<open>
  Claim C3 as stated fails: a turn given a data frame and a requirement fails, and the
  manager's context, empty before the turn, holds both after it.
\<close>

theorem failed_turn_changes_context:
  "case process_query ''mean of column A''
          (Some [(''data'', Val (PObject [(''shape'', PTuple [PInt 3, PInt 2])])),
                 (''confidence'', Val (PInt 95))])
          ''2026-11-03T10:00:00'' first_manager first_world of
     (outcome, w') \<Rightarrow>
        outcome = Inl TypeError
        \<and> heap first_world (context_ref first_manager) = []
        \<and> heap w' (context_ref first_manager) =
            [(''data'', Val (PObject [(''shape'', PTuple [PInt 3, PInt 2])])),
             (''confidence'', Val (PInt 95))]"
  by (simp add: eval_defs)

section \<open>Facts about appending and reading back\<close>

lemma priv_update_history_frame:
  "heap (snd (priv_update_history r w)) = heap w
   \<and> objects (snd (priv_update_history r w)) = objects w
   \<and> next_addr (snd (priv_update_history r w)) = next_addr w
   \<and> disk (snd (priv_update_history r w)) = disk w"
  by (simp add: priv_update_history_def write_text_def split: sum.splits disk.splits)

lemma bulk_update_history_frame:
  "heap (snd (bulk_update_history entries w)) = heap w
   \<and> objects (snd (bulk_update_history entries w)) = objects w
   \<and> next_addr (snd (bulk_update_history entries w)) = next_addr w
   \<and> disk (snd (bulk_update_history entries w)) = disk w"
  by (simp add: bulk_update_history_def write_text_def split: sum.splits disk.splits)

lemma history_entry_frame:
  "heap w' = heap w \<Longrightarrow> objects w' = objects w \<Longrightarrow> history_entry r w' = history_entry r w"
  by (simp add: history_entry_def split: option.splits)

lemma history_entry_file [simp]: "history_entry r (w\<lparr>qna_file := f\<rparr>) = history_entry r w"
  by (simp add: history_entry_def split: option.splits)

lemma update_history_all_ok:
  "load_history (qna_file w) = Inr (PList (of_json_list prior)) \<Longrightarrow> disk w = Healthy \<Longrightarrow>
   json_like_list (map (\<lambda>r. history_entry r w) rs) \<Longrightarrow>
   \<exists>w'. update_history_all rs w = (Inr (), w') \<and> heap w' = heap w \<and> objects w' = objects w
      \<and> load_history (qna_file w')
          = Inr (PList (of_json_list prior @ map (\<lambda>r. history_entry r w) rs))"
proof (induction rs arbitrary: w prior)
  case Nil
  then show ?case by simp
next
  case (Cons r rs)
  from Cons.prems(3) have jl: "json_like (history_entry r w)"
    and rest: "json_like_list (map (\<lambda>r. history_entry r w) rs)"
    by simp_all
  from json_like_round_trip [OF jl] obtain ej where
    ej: "to_json (history_entry r w) = Some ej" "of_json ej = history_entry r w"
    by blast
  let ?w1 = "w\<lparr>qna_file := Some (Json (JArr (prior @ [ej])))\<rparr>"
  from priv_update_history_on_array [OF Cons.prems(1), of r] ej Cons.prems(2)
  have s1: "priv_update_history r w = (Inr (), ?w1)"
    by simp
  have h: "\<And>x. history_entry x ?w1 = history_entry x w"
    by simp
  have "\<exists>w'. update_history_all rs ?w1 = (Inr (), w') \<and> heap w' = heap ?w1
      \<and> objects w' = objects ?w1
      \<and> load_history (qna_file w')
          = Inr (PList (of_json_list (prior @ [ej]) @ map (\<lambda>r. history_entry r ?w1) rs))"
    using Cons.prems(2) rest by (intro Cons.IH) (simp_all add: h)
  then show ?case
    using s1 ej by (simp add: h of_json_list_append)
qed

text \<open>
  Claim C4, as the code has it: take a history file that is absent or holds an array,
  on a disk that takes the write, and new entries built of the JSON kinds only
  (dictionaries, lists, texts, integers, truth values, \<^verbatim>\<open>None\<close>). Appending them in
  bulk, or one result at a time, and then reading the file yields the prior entries
  followed by exactly the new ones, in their order. No sequence number is stored: the
  entry of a single append has the keys \<open>query\<close>, \<open>code\<close>, \<open>timestamp\<close> and
  \<open>context\<close> and no other, and the bulk append stores what it is given; the place
  of an entry in the array, which goes on from the prior length, is its only number.
\<close>

theorem history_round_trip:
  assumes "load_history (qna_file w) = Inr (PList (of_json_list prior))"
      and "disk w = Healthy"
  shows "(json_like_list (map PDict entries) \<longrightarrow>
           (\<exists>w'. bulk_update_history entries w = (Inr (), w')
              \<and> load_history (qna_file w')
                  = Inr (PList (of_json_list prior @ map PDict entries))))
       \<and> (json_like_list (map (\<lambda>r. history_entry r w) rs) \<longrightarrow>
           (\<exists>w'. update_history_all rs w = (Inr (), w')
              \<and> load_history (qna_file w')
                  = Inr (PList (of_json_list prior @ map (\<lambda>r. history_entry r w) rs))))
       \<and> (\<exists>cv. history_entry r w =
                  PDict [(''query'', PStr (qr_query r)), (''code'', PStr (qr_code r)),
                         (''timestamp'', PStr (qr_timestamp r)), (''context'', cv)])"
proof (intro conjI impI)
  assume e: "json_like_list (map PDict entries)"
  from json_like_list_round_trip [OF e] obtain js where
    js: "to_json_list (map PDict entries) = Some js" "of_json_list js = map PDict entries"
    by blast
  from bulk_update_history_on_array [OF assms(1), of entries] js assms(2)
  have "bulk_update_history entries w = (Inr (), w\<lparr>qna_file := Some (Json (JArr (prior @ js)))\<rparr>)"
    by simp
  with js show "\<exists>w'. bulk_update_history entries w = (Inr (), w')
              \<and> load_history (qna_file w')
                  = Inr (PList (of_json_list prior @ map PDict entries))"
    by (simp add: of_json_list_append)
next
  assume e: "json_like_list (map (\<lambda>r. history_entry r w) rs)"
  from update_history_all_ok [OF assms e]
  show "\<exists>w'. update_history_all rs w = (Inr (), w')
              \<and> load_history (qna_file w')
                  = Inr (PList (of_json_list prior @ map (\<lambda>r. history_entry r w) rs))"
    by auto
next
  show "\<exists>cv. history_entry r w =
                  PDict [(''query'', PStr (qr_query r)), (''code'', PStr (qr_code r)),
                         (''timestamp'', PStr (qr_timestamp r)), (''context'', cv)]"
    by (simp add: history_entry_def)
qed

text \<open>The theorem of C4 at work: two entries appended in bulk after one prior entry,
  and two results appended one at a time to an absent file.\<close>

theorem history_round_trip_witness:
  "(\<exists>w'. bulk_update_history
            [[(''query'', PStr ''first'')], [(''query'', PStr ''second'')]]
            (first_world\<lparr>qna_file := Some (Json (JArr [JObj [(''query'', JStr ''old'')]]))\<rparr>)
          = (Inr (), w')
       \<and> load_history (qna_file w')
           = Inr (PList [PDict [(''query'', PStr ''old'')], PDict [(''query'', PStr ''first'')],
                         PDict [(''query'', PStr ''second'')]]))
   \<and> (\<exists>w'. update_history_all
            [\<lparr>qr_query = ''first'', qr_code = ''one'', qr_result = PNone,
              qr_timestamp = ''2026-11-03T10:00:00'', qr_context = None\<rparr>,
             \<lparr>qr_query = ''second'', qr_code = ''two'', qr_result = PNone,
              qr_timestamp = ''2026-11-03T10:00:01'', qr_context = Some 0\<rparr>]
            (first_world\<lparr>qna_file := None\<rparr>) = (Inr (), w')
       \<and> load_history (qna_file w')
           = Inr (PList
               [PDict [(''query'', PStr ''first''), (''code'', PStr ''one''),
                       (''timestamp'', PStr ''2026-11-03T10:00:00''), (''context'', PNone)],
                PDict [(''query'', PStr ''second''), (''code'', PStr ''two''),
                       (''timestamp'', PStr ''2026-11-03T10:00:01''), (''context'', PDict [])]]))"
proof -
  let ?w1 = "first_world\<lparr>qna_file := Some (Json (JArr [JObj [(''query'', JStr ''old'')]]))\<rparr>"
  let ?w2 = "first_world\<lparr>qna_file := None\<rparr>"
  let ?es = "[[(''query'', PStr ''first'')], [(''query'', PStr ''second'')]]"
  let ?rs = "[\<lparr>qr_query = ''first'', qr_code = ''one'', qr_result = PNone,
              qr_timestamp = ''2026-11-03T10:00:00'', qr_context = None\<rparr>,
             \<lparr>qr_query = ''second'', qr_code = ''two'', qr_result = PNone,
              qr_timestamp = ''2026-11-03T10:00:01'', qr_context = Some 0\<rparr>]"
  have a1: "load_history (qna_file ?w1) = Inr (PList (of_json_list [JObj [(''query'', JStr ''old'')]]))"
    by (simp add: eval_defs)
  have a2: "disk ?w1 = Healthy"
    by (simp add: eval_defs)
  have b1: "load_history (qna_file ?w2) = Inr (PList (of_json_list []))"
    by (simp add: eval_defs)
  have b2: "disk ?w2 = Healthy"
    by (simp add: eval_defs)
  have e: "json_like_list (map PDict ?es)"
    by simp
  have r: "json_like_list (map (\<lambda>r. history_entry r ?w2) ?rs)"
    by (simp add: eval_defs)
  from history_round_trip [OF a1 a2, of ?es "[]"] e
  have 1: "\<exists>w'. bulk_update_history ?es ?w1 = (Inr (), w')
       \<and> load_history (qna_file w')
           = Inr (PList (of_json_list [JObj [(''query'', JStr ''old'')]] @ map PDict ?es))"
    by blast
  from history_round_trip [OF b1 b2, of "[]" ?rs] r
  have 2: "\<exists>w'. update_history_all ?rs ?w2 = (Inr (), w')
       \<and> load_history (qna_file w')
           = Inr (PList (of_json_list [] @ map (\<lambda>r. history_entry r ?w2) ?rs))"
    by blast
  from 1 2 show ?thesis
    by (simp add: eval_defs)
qed

text \<open>
  Claim C4 as stated fails on both counts. An entry that holds a tuple, say a shape, is
  appended without error and read back with a list in its place, so what is read is
  not the entry that was appended. And the entry a turn appends to the empty history
  of a new project is read back with its four keys: it has no sequence number.
\<close>

theorem round_trip_changes_tuple_and_stores_no_number:
  "(case bulk_update_history
           [[(''query'', PStr ''shape of A''), (''shape'', PTuple [PInt 3, PInt 2])]] first_world of
      (outcome, w') \<Rightarrow>
         outcome = Inr ()
         \<and> load_history (qna_file w')
             = Inr (PList [PDict [(''query'', PStr ''shape of A''),
                                  (''shape'', PList [PInt 3, PInt 2])]])
         \<and> PDict [(''query'', PStr ''shape of A''), (''shape'', PList [PInt 3, PInt 2])]
             \<noteq> PDict [(''query'', PStr ''shape of A''), (''shape'', PTuple [PInt 3, PInt 2])])
   \<and> (case process_query ''mean of column A'' None ''2026-11-03T10:00:00''
             first_manager first_world of
        (outcome, w') \<Rightarrow>
           load_history (qna_file w')
             = Inr (PList
                 [PDict [(''query'', PStr ''mean of column A''),
                         (''code'', PStr (''mean of column A'' @ [CHR 0x0A]
                                           @ ''# TODO: Implement analysis'')),
                         (''timestamp'', PStr ''2026-11-03T10:00:00''),
                         (''context'', PDict [])]]))"
  by (simp add: eval_defs)

text \<open>
  Claim C5, as the code has it: both writers treat an absent file as the empty array:
  they end on it as they end on a file holding \<^verbatim>\<open>[]\<close>, and when they return they
  leave the same file. An append that returns has read the whole array and has
  rewritten the file as that array followed by the new objects. The object the single
  append writes has the keys \<open>query\<close>, \<open>code\<close>, \<open>timestamp\<close>, \<open>context\<close>;
  the bulk append writes the objects it is given as they are, whatever their keys.
\<close>

theorem append_reads_pushes_rewrites:
  "fst (priv_update_history r (w\<lparr>qna_file := None\<rparr>))
     = fst (priv_update_history r (w\<lparr>qna_file := Some (Json (JArr []))\<rparr>))
   \<and> (fst (priv_update_history r (w\<lparr>qna_file := None\<rparr>)) = Inr () \<longrightarrow>
        snd (priv_update_history r (w\<lparr>qna_file := None\<rparr>))
          = snd (priv_update_history r (w\<lparr>qna_file := Some (Json (JArr []))\<rparr>)))
   \<and> fst (bulk_update_history entries (w\<lparr>qna_file := None\<rparr>))
     = fst (bulk_update_history entries (w\<lparr>qna_file := Some (Json (JArr []))\<rparr>))
   \<and> (fst (bulk_update_history entries (w\<lparr>qna_file := None\<rparr>)) = Inr () \<longrightarrow>
        snd (bulk_update_history entries (w\<lparr>qna_file := None\<rparr>))
          = snd (bulk_update_history entries (w\<lparr>qna_file := Some (Json (JArr []))\<rparr>)))
   \<and> (priv_update_history r w = (Inr (), w') \<longrightarrow>
        (\<exists>prior d. load_history (qna_file w) = Inr (PList (of_json_list prior))
           \<and> qna_file w' = Some (Json (JArr (prior @ [JObj d])))
           \<and> keys d = [''query'', ''code'', ''timestamp'', ''context'']))
   \<and> (bulk_update_history entries w = (Inr (), w') \<longrightarrow>
        (\<exists>prior new. load_history (qna_file w) = Inr (PList (of_json_list prior))
           \<and> to_json_list (map PDict entries) = Some new
           \<and> qna_file w' = Some (Json (JArr (prior @ new)))))"
proof -
  have n: "\<And>v. load_history (qna_file (v\<lparr>qna_file := None\<rparr>)) = Inr (PList (of_json_list []))"
    by (simp add: load_history_def)
  have a: "\<And>v. load_history (qna_file (v\<lparr>qna_file := Some (Json (JArr []))\<rparr>))
               = Inr (PList (of_json_list []))"
    by simp
  note un = priv_update_history_on_array [OF n, of r w]
  note ua = priv_update_history_on_array [OF a, of r w]
  note bn = bulk_update_history_on_array [OF n, of entries w]
  note ba = bulk_update_history_on_array [OF a, of entries w]
  have he: "history_entry r (w\<lparr>qna_file := None\<rparr>)
              = history_entry r (w\<lparr>qna_file := Some (Json (JArr []))\<rparr>)"
    by simp
  have 1: "fst (priv_update_history r (w\<lparr>qna_file := None\<rparr>))
     = fst (priv_update_history r (w\<lparr>qna_file := Some (Json (JArr []))\<rparr>))"
    by (simp add: un ua he split: option.splits disk.splits)
  have 2: "fst (priv_update_history r (w\<lparr>qna_file := None\<rparr>)) = Inr () \<longrightarrow>
        snd (priv_update_history r (w\<lparr>qna_file := None\<rparr>))
          = snd (priv_update_history r (w\<lparr>qna_file := Some (Json (JArr []))\<rparr>))"
    by (simp add: un ua he split: option.splits disk.splits)
  have 3: "fst (bulk_update_history entries (w\<lparr>qna_file := None\<rparr>))
     = fst (bulk_update_history entries (w\<lparr>qna_file := Some (Json (JArr []))\<rparr>))"
    by (simp add: bn ba split: option.splits disk.splits)
  have 4: "fst (bulk_update_history entries (w\<lparr>qna_file := None\<rparr>)) = Inr () \<longrightarrow>
        snd (bulk_update_history entries (w\<lparr>qna_file := None\<rparr>))
          = snd (bulk_update_history entries (w\<lparr>qna_file := Some (Json (JArr []))\<rparr>))"
    by (simp add: bn ba split: option.splits disk.splits)
  have 5: "priv_update_history r w = (Inr (), w') \<longrightarrow>
        (\<exists>prior d. load_history (qna_file w) = Inr (PList (of_json_list prior))
           \<and> qna_file w' = Some (Json (JArr (prior @ [JObj d])))
           \<and> keys d = [''query'', ''code'', ''timestamp'', ''context''])"
  proof
    assume s: "priv_update_history r w = (Inr (), w')"
    show "\<exists>prior d. load_history (qna_file w) = Inr (PList (of_json_list prior))
           \<and> qna_file w' = Some (Json (JArr (prior @ [JObj d])))
           \<and> keys d = [''query'', ''code'', ''timestamp'', ''context'']"
    proof (cases "\<exists>prior. load_history (qna_file w) = Inr (PList (of_json_list prior))")
      case True
      then obtain prior where p: "load_history (qna_file w) = Inr (PList (of_json_list prior))"
        by blast
      define cv where "cv = (case qr_context r of None \<Rightarrow> PNone
                              | Some a \<Rightarrow> PDict (view (objects w) (heap w a)))"
      have "to_json (history_entry r w) =
              map_option (\<lambda>cj. JObj [(''query'', JStr (qr_query r)), (''code'', JStr (qr_code r)),
                                     (''timestamp'', JStr (qr_timestamp r)), (''context'', cj)])
                (to_json cv)"
        by (simp only: history_entry_def cv_def [symmetric] to_json_entry)
      with priv_update_history_on_array [OF p, of r] s p show ?thesis
        by (cases "to_json cv"; cases "disk w") (auto simp: keys_def)
    next
      case False
      then have "\<And>prior. load_history (qna_file w) \<noteq> Inr (PList (of_json_list prior))"
        by blast
      from priv_update_history_not_array [OF this, of r] s show ?thesis
        by auto
    qed
  qed
  have 6: "bulk_update_history entries w = (Inr (), w') \<longrightarrow>
        (\<exists>prior new. load_history (qna_file w) = Inr (PList (of_json_list prior))
           \<and> to_json_list (map PDict entries) = Some new
           \<and> qna_file w' = Some (Json (JArr (prior @ new))))"
  proof
    assume s: "bulk_update_history entries w = (Inr (), w')"
    show "\<exists>prior new. load_history (qna_file w) = Inr (PList (of_json_list prior))
           \<and> to_json_list (map PDict entries) = Some new
           \<and> qna_file w' = Some (Json (JArr (prior @ new)))"
    proof (cases "\<exists>prior. load_history (qna_file w) = Inr (PList (of_json_list prior))")
      case True
      then obtain prior where p: "load_history (qna_file w) = Inr (PList (of_json_list prior))"
        by blast
      from bulk_update_history_on_array [OF p, of entries] s p show ?thesis
        by (cases "to_json_list (map PDict entries)"; cases "disk w") auto
    next
      case False
      then have "\<And>prior. load_history (qna_file w) \<noteq> Inr (PList (of_json_list prior))"
        by blast
      from bulk_update_history_not_array [OF this, of entries] s show ?thesis
        by auto
    qed
  qed
  from 1 2 3 4 5 6 show ?thesis
    by blast
qed

text \<open>The theorem of C5 at work: a single append and a bulk append to an absent
  file.\<close>

theorem append_reads_pushes_rewrites_witness:
  "(\<exists>w' prior d.
       priv_update_history
         \<lparr>qr_query = ''first'', qr_code = ''one'', qr_result = PNone,
          qr_timestamp = ''2026-11-03T10:00:00'', qr_context = Some 0\<rparr>
         (first_world\<lparr>qna_file := None\<rparr>) = (Inr (), w')
       \<and> load_history None = Inr (PList (of_json_list prior))
       \<and> qna_file w' = Some (Json (JArr (prior @ [JObj d])))
       \<and> keys d = [''query'', ''code'', ''timestamp'', ''context''])
   \<and> (\<exists>w'.
       bulk_update_history [[(''query'', PStr ''first'')]] (first_world\<lparr>qna_file := None\<rparr>)
         = (Inr (), w')
       \<and> qna_file w' = Some (Json (JArr [JObj [(''query'', JStr ''first'')]]))
       \<and> bulk_update_history [[(''query'', PStr ''first'')]]
            (first_world\<lparr>qna_file := Some (Json (JArr []))\<rparr>) = (Inr (), w'))"
proof -
  let ?w = "first_world\<lparr>qna_file := None\<rparr>"
  let ?r = "\<lparr>qr_query = ''first'', qr_code = ''one'', qr_result = PNone,
          qr_timestamp = ''2026-11-03T10:00:00'', qr_context = Some 0\<rparr>"
  let ?es = "[[(''query'', PStr ''first'')]]"
  have "\<exists>w'. priv_update_history ?r ?w = (Inr (), w')"
    by (simp add: eval_defs)
  then obtain w1 where 1: "priv_update_history ?r ?w = (Inr (), w1)" by blast
  have "\<exists>w'. bulk_update_history ?es ?w = (Inr (), w')"
    by (simp add: eval_defs)
  then obtain w2 where 2: "bulk_update_history ?es ?w = (Inr (), w2)" by blast
  note single = append_reads_pushes_rewrites
    [of ?r ?w ?es w1, THEN conjunct2, THEN conjunct2, THEN conjunct2, THEN conjunct2,
     THEN conjunct1, rule_format, OF 1]
  then have 3: "\<exists>prior d. load_history None = Inr (PList (of_json_list prior))
           \<and> qna_file w1 = Some (Json (JArr (prior @ [JObj d])))
           \<and> keys d = [''query'', ''code'', ''timestamp'', ''context'']"
    by simp
  note same_outcome = append_reads_pushes_rewrites
    [of ?r first_world ?es w2, THEN conjunct2, THEN conjunct2, THEN conjunct1]
  note same_world = append_reads_pushes_rewrites
    [of ?r first_world ?es w2, THEN conjunct2, THEN conjunct2, THEN conjunct2,
     THEN conjunct1, rule_format]
  from 2 have o: "fst (bulk_update_history ?es ?w) = Inr ()"
    by simp
  from same_world [OF o] same_outcome o 2
  have 4: "bulk_update_history ?es (first_world\<lparr>qna_file := Some (Json (JArr []))\<rparr>) = (Inr (), w2)"
    by (simp add: prod_eq_iff)
  note bulk = append_reads_pushes_rewrites
    [of ?r ?w ?es w2, THEN conjunct2, THEN conjunct2, THEN conjunct2, THEN conjunct2,
     THEN conjunct2, rule_format, OF 2]
  then obtain prior new where
    l: "load_history (qna_file ?w) = Inr (PList (of_json_list prior))"
    and n: "to_json_list (map PDict ?es) = Some new"
    and q: "qna_file w2 = Some (Json (JArr (prior @ new)))"
    by blast
  from l have "of_json_list prior = of_json_list []"
    by (simp add: load_history_def)
  then have "prior = []" by (rule of_json_list_inj)
  with n q have 5: "qna_file w2 = Some (Json (JArr [JObj [(''query'', JStr ''first'')]]))"
    by auto
  from 1 3 have a: "\<exists>w' prior d.
       priv_update_history ?r ?w = (Inr (), w')
       \<and> load_history None = Inr (PList (of_json_list prior))
       \<and> qna_file w' = Some (Json (JArr (prior @ [JObj d])))
       \<and> keys d = [''query'', ''code'', ''timestamp'', ''context'']"
    by blast
  from 2 4 5 have b: "\<exists>w'.
       bulk_update_history ?es ?w = (Inr (), w')
       \<and> qna_file w' = Some (Json (JArr [JObj [(''query'', JStr ''first'')]]))
       \<and> bulk_update_history ?es (first_world\<lparr>qna_file := Some (Json (JArr []))\<rparr>) = (Inr (), w')"
    by blast
  from a b show ?thesis
    by (rule conjI)
qed

text \<open>
  Claim C5 as stated fails: a session of one turn followed by \<open>exit\<close>, in a new
  project, leaves a history file whose last entry, written by the bulk append from the
  session's own list, has the keys \<open>query\<close>, \<open>timestamp\<close>, \<open>code\<close> and no
  \<open>context\<close>.
\<close>

theorem session_entry_lacks_context:
  "\<forall>c. qna_file (snd (snd (start_session c
       [Line ''mean of column A'' ''2026-11-03T10:00:00'' ''2026-11-03T10:00:01'' True,
        Line ''exit'' [] [] True] first_session first_world)))
   = Some (Json (JArr
       [JObj [(''query'', JStr ''mean of column A''),
              (''code'', JStr (''mean of column A'' @ [CHR 0x0A] @ ''# TODO: Implement analysis'')),
              (''timestamp'', JStr ''2026-11-03T10:00:00''),
              (''context'', JObj [])],
        JObj [(''query'', JStr ''mean of column A''),
              (''timestamp'', JStr ''2026-11-03T10:00:01''),
              (''code'', JStr (''mean of column A'' @ [CHR 0x0A] @ ''# TODO: Implement analysis''))]]))"
  by (simp add: eval_defs Let_def)

section \<open>Facts about the session loop\<close>

text \<open>
  Claim C9, as the code has it: the commands are matched on the typed line stripped of
  surrounding whitespace and lower-cased. A line that so reads \<open>help\<close>,
  \<open>history\<close> or \<open>exit\<close> short-circuits: no query is processed (no result is
  created), and the session's list gains nothing. \<open>help\<close> and \<open>history\<close>
  leave the world as it was; \<open>history\<close> goes on with the loop unless showing the
  table raises, in which case the error is reported. \<open>exit\<close> writes the session's
  list to the history file in bulk and leaves the loop, or reports the error of that
  write. Every other line is passed, stripped, to \<open>process_query\<close>, which creates a
  result; when the turn succeeds the session's list gains one entry with that query.
  Reporting an error prints the error line and goes on with the loop, unless the console
  refuses that line, which ends the session with the console's error.
\<close>

theorem builtin_commands_short_circuit:
  "(lower (py_strip typed) = ''help'' \<longrightarrow>
      loop_body c (Line typed now1 now2 g) s w = (Continue, s, w))
   \<and> (lower (py_strip typed) = ''history'' \<longrightarrow>
        loop_body c (Line typed now1 now2 g) s w =
          ((case priv_show_history c s of None \<Rightarrow> Continue | Some e \<Rightarrow> report_error c e), s, w))
   \<and> (lower (py_strip typed) = ''exit'' \<longrightarrow>
        loop_body c (Line typed now1 now2 g) s w =
          ((case fst (bulk_update_history (history s) w) of
              Inl e \<Rightarrow> report_error c e
            | Inr u \<Rightarrow> Break),
           s, snd (bulk_update_history (history s) w))
        \<and> heap (snd (bulk_update_history (history s) w)) = heap w
        \<and> objects (snd (bulk_update_history (history s) w)) = objects w
        \<and> next_addr (snd (bulk_update_history (history s) w)) = next_addr w)
   \<and> (lower (py_strip typed) \<noteq> ''exit'' \<and> lower (py_strip typed) \<noteq> ''help''
        \<and> lower (py_strip typed) \<noteq> ''history'' \<longrightarrow>
        next_addr (snd (process_query (py_strip typed) None now1 (query_manager s) w))
          = Suc (next_addr w)
        \<and> (case process_query (py_strip typed) None now1 (query_manager s) w of
             (Inl e, w') \<Rightarrow>
               loop_body c (Line typed now1 now2 g) s w = (report_error c e, s, w')
           | (Inr r, w') \<Rightarrow>
               qr_query r = py_strip typed
               \<and> loop_body c (Line typed now1 now2 g) s w =
                   ((if git_controller s \<and> \<not> g then report_error c CalledProcessError
                     else Continue),
                    s\<lparr>history := history s @
                        [[(''query'', PStr (py_strip typed)), (''timestamp'', PStr now2),
                          (''code'', PStr (qr_code r))]]\<rparr>,
                    w')))"
proof (intro conjI impI)
  assume "lower (py_strip typed) = ''help''"
  then show "loop_body c (Line typed now1 now2 g) s w = (Continue, s, w)"
    by (simp add: loop_body_def priv_get_user_input_def)
next
  assume "lower (py_strip typed) = ''history''"
  then show "loop_body c (Line typed now1 now2 g) s w =
          ((case priv_show_history c s of None \<Rightarrow> Continue | Some e \<Rightarrow> report_error c e), s, w)"
    by (simp add: loop_body_def priv_get_user_input_def split: option.splits)
next
  assume "lower (py_strip typed) = ''exit''"
  then show "loop_body c (Line typed now1 now2 g) s w =
          ((case fst (bulk_update_history (history s) w) of
              Inl e \<Rightarrow> report_error c e
            | Inr u \<Rightarrow> Break),
           s, snd (bulk_update_history (history s) w))"
    by (simp add: loop_body_def priv_get_user_input_def priv_end_session_def
        priv_save_history_def split: prod.splits sum.splits)
next
  show "heap (snd (bulk_update_history (history s) w)) = heap w"
    and "objects (snd (bulk_update_history (history s) w)) = objects w"
    and "next_addr (snd (bulk_update_history (history s) w)) = next_addr w"
    by (simp_all add: bulk_update_history_frame)
next
  let ?p = "process_query (py_strip typed) None now1 (query_manager s) w"
  assume c: "lower (py_strip typed) \<noteq> ''exit'' \<and> lower (py_strip typed) \<noteq> ''help''
        \<and> lower (py_strip typed) \<noteq> ''history''"
  obtain outcome w' where p: "?p = (outcome, w')" by (cases ?p)
  show "next_addr (snd ?p) = Suc (next_addr w)"
  proof (cases outcome)
    case (Inl e)
    with p process_query_fails [of "py_strip typed" None now1 "query_manager s" w e w']
    show ?thesis by (auto simp: created_facts split: disk.splits)
  next
    case (Inr r)
    with p process_query_succeeds [of "py_strip typed" None now1 "query_manager s" w r w']
    show ?thesis by (auto simp: created_facts)
  qed
  show "case ?p of
             (Inl e, w') \<Rightarrow>
               loop_body c (Line typed now1 now2 g) s w = (report_error c e, s, w')
           | (Inr r, w') \<Rightarrow>
               qr_query r = py_strip typed
               \<and> loop_body c (Line typed now1 now2 g) s w =
                   ((if git_controller s \<and> \<not> g then report_error c CalledProcessError
                     else Continue),
                    s\<lparr>history := history s @
                        [[(''query'', PStr (py_strip typed)), (''timestamp'', PStr now2),
                          (''code'', PStr (qr_code r))]]\<rparr>,
                    w')"
  proof (cases outcome)
    case (Inl e)
    with p c show ?thesis
      by (simp add: loop_body_def priv_get_user_input_def)
  next
    case (Inr r)
    with p process_query_succeeds [of "py_strip typed" None now1 "query_manager s" w r w']
    have "qr_query r = py_strip typed"
      by (simp add: turn_result_def)
    with p c Inr show ?thesis
      by (simp add: loop_body_def priv_get_user_input_def priv_handle_result_def
          commit_changes_def Let_def)
  qed
qed

text \<open>The theorem of C9 at work, whatever the console: \<open>Help\<close> between spaces,
  \<open>history\<close> after one turn, \<open>exit\<close>, and a query, each in a new project.\<close>

theorem builtin_commands_short_circuit_witness:
  "\<forall>c. loop_body c (Line '' Help '' ''2026-11-03T10:00:00'' ''2026-11-03T10:00:01'' True)
          first_session first_world
        = (Continue, first_session, first_world)
      \<and> loop_body c (Line ''history'' ''2026-11-03T10:00:00'' ''2026-11-03T10:00:01'' True)
          (first_session\<lparr>history :=
             [[(''query'', PStr ''mean of column A''),
               (''timestamp'', PStr ''2026-11-03T10:00:01''),
               (''code'', PStr ''mean'')]]\<rparr>) first_world
        = (Continue,
           first_session\<lparr>history :=
             [[(''query'', PStr ''mean of column A''),
               (''timestamp'', PStr ''2026-11-03T10:00:01''),
               (''code'', PStr ''mean'')]]\<rparr>, first_world)
      \<and> loop_body c (Line ''exit'' ''2026-11-03T10:00:00'' ''2026-11-03T10:00:01'' True)
          first_session first_world
        = (Break, first_session, snd (bulk_update_history [] first_world))
      \<and> fst (loop_body c (Line ''mean of column A'' ''2026-11-03T10:00:00''
                 ''2026-11-03T10:00:01'' True) first_session first_world) = Continue
      \<and> history (fst (snd (loop_body c (Line ''mean of column A'' ''2026-11-03T10:00:00''
                 ''2026-11-03T10:00:01'' True) first_session first_world)))
        = [[(''query'', PStr ''mean of column A''),
            (''timestamp'', PStr ''2026-11-03T10:00:01''),
            (''code'', PStr (''mean of column A'' @ [CHR 0x0A] @ ''# TODO: Implement analysis''))]]"
proof
  fix c
  let ?t1 = "''2026-11-03T10:00:00''"
  let ?t2 = "''2026-11-03T10:00:01''"
  let ?q = "''mean of column A''"
  let ?s1 = "first_session\<lparr>history :=
             [[(''query'', PStr ''mean of column A''),
               (''timestamp'', PStr ''2026-11-03T10:00:01''),
               (''code'', PStr ''mean'')]]\<rparr>"
  have h: "lower (py_strip '' Help '') = ''help''"
    by (simp add: lower_def lower_char_def py_strip_def whitespace_def)
  have hi: "lower (py_strip ''history'') = ''history''"
    by (simp add: lower_def lower_char_def py_strip_def whitespace_def)
  have x: "lower (py_strip ''exit'') = ''exit''"
    by (simp add: lower_def lower_char_def py_strip_def whitespace_def)
  have st: "py_strip ?q = ?q"
    by (simp add: py_strip_def whitespace_def)
  have o: "lower (py_strip ?q) \<noteq> ''exit'' \<and> lower (py_strip ?q) \<noteq> ''help''
           \<and> lower (py_strip ?q) \<noteq> ''history''"
    by (simp add: st lower_def lower_char_def)
  have sh: "priv_show_history c ?s1 = None"
    by (simp add: priv_show_history_def first_session_def history_row_def split_second_def
        print_raises_def)
  have b: "fst (bulk_update_history (history first_session) first_world) = Inr ()"
    by (simp add: eval_defs)
  have hs: "history first_session = []" and gc: "\<not> git_controller first_session"
    and qm: "query_manager first_session = first_manager"
    by (simp_all add: first_session_def)
  have "\<exists>r w'. process_query ?q None ?t1 first_manager first_world = (Inr r, w')"
    by (simp add: eval_defs)
  then obtain r w2 where
    p: "process_query (py_strip ?q) None ?t1 (query_manager first_session) first_world = (Inr r, w2)"
    by (auto simp: st qm)
  note T = builtin_commands_short_circuit
  from T [of "'' Help ''" c ?t1 ?t2 True first_session first_world] h
  have 1: "loop_body c (Line '' Help '' ?t1 ?t2 True) first_session first_world
             = (Continue, first_session, first_world)"
    by blast
  from T [of "''history''" c ?t1 ?t2 True ?s1 first_world] hi sh
  have 2: "loop_body c (Line ''history'' ?t1 ?t2 True) ?s1 first_world
             = (Continue, ?s1, first_world)"
    by simp
  from T [of "''exit''" c ?t1 ?t2 True first_session first_world] x b hs
  have 3: "loop_body c (Line ''exit'' ?t1 ?t2 True) first_session first_world
             = (Break, first_session, snd (bulk_update_history [] first_world))"
    by simp
  from T [of ?q c ?t1 ?t2 True first_session first_world] o p gc
  have 4: "qr_query r = py_strip ?q \<and>
           loop_body c (Line ?q ?t1 ?t2 True) first_session first_world
            = (Continue,
               first_session\<lparr>history := history first_session @
                 [[(''query'', PStr (py_strip ?q)), (''timestamp'', PStr ?t2),
                   (''code'', PStr (qr_code r))]]\<rparr>, w2)"
    by simp
  from p process_query_succeeds [OF p] have 5: "qr_code r = ?q @ [CHR 0x0A] @ ''# TODO: Implement analysis''"
    by (simp add: turn_result_def st)
  from 1 2 3 4 5 hs st
  show "loop_body c (Line '' Help '' ?t1 ?t2 True) first_session first_world
        = (Continue, first_session, first_world)
      \<and> loop_body c (Line ''history'' ?t1 ?t2 True) ?s1 first_world = (Continue, ?s1, first_world)
      \<and> loop_body c (Line ''exit'' ?t1 ?t2 True) first_session first_world
        = (Break, first_session, snd (bulk_update_history [] first_world))
      \<and> fst (loop_body c (Line ?q ?t1 ?t2 True) first_session first_world) = Continue
      \<and> history (fst (snd (loop_body c (Line ?q ?t1 ?t2 True) first_session first_world)))
        = [[(''query'', PStr ''mean of column A''),
            (''timestamp'', PStr ''2026-11-03T10:00:01''),
            (''code'', PStr (''mean of column A'' @ [CHR 0x0A] @ ''# TODO: Implement analysis''))]]"
    by simp
qed

text \<open>
  Claim C9 as stated fails in its last part: the lines \<open>HELP\<close> and \<open>help\<close>
  between spaces are none of the three commands as written, yet neither proceeds into
  the pipeline: the loop leaves everything as it was, where \<open>process_query\<close> would
  have written to the history file.
\<close>

theorem upper_case_help_short_circuits:
  "\<forall>c. ''HELP'' \<noteq> ''exit'' \<and> ''HELP'' \<noteq> ''help'' \<and> ''HELP'' \<noteq> ''history''
   \<and> loop_body c (Line ''HELP'' ''2026-11-03T10:00:00'' ''2026-11-03T10:00:01'' True)
        first_session first_world = (Continue, first_session, first_world)
   \<and> '' help '' \<noteq> ''exit'' \<and> '' help '' \<noteq> ''help'' \<and> '' help '' \<noteq> ''history''
   \<and> loop_body c (Line '' help '' ''2026-11-03T10:00:00'' ''2026-11-03T10:00:01'' True)
        first_session first_world = (Continue, first_session, first_world)
   \<and> qna_file (snd (process_query ''HELP'' None ''2026-11-03T10:00:00'' first_manager first_world))
        \<noteq> qna_file first_world"
  by (simp add: eval_defs Let_def)

text \<open>
  What the loop does when the console refuses a stored query: after a turn whose query
  is a closing tag that closes nothing, \<open>history\<close> raises in the table, the error
  line is refused in turn, and the session ends with the console's error.
\<close>

lemma history_can_end_the_session:
  assumes "refuses c ''[/bold]''"
      and "refuses c ([CHR 0x0A] @ ''[red]Error:[/red] '' @ error_text c MarkupError)"
  shows "fst (start_session c
           [Line ''[/bold]'' ''2026-11-03T10:00:00'' ''2026-11-03T10:00:01'' True,
            Line ''history'' ''2026-11-03T10:02:00'' ''2026-11-03T10:02:01'' True]
           first_session first_world) = Raise MarkupError"
  using assms
  by (simp add: eval_defs Let_def history_row_def split_second_def print_raises_def
      report_error_def)

section \<open>Facts about the copied context\<close>

lemma QueryManager_init_allocated:
  "QueryManager_init w = (m, w') \<Longrightarrow> context_ref m < next_addr w'"
  by (auto simp: QueryManager_init_def alloc_def)









end
